theory Spec2Isabelle
  imports Main "HOL-Library.Sublist"
begin

section \<open>Python values, exceptions and the host environment\<close>

text \<open>
  The module \<open>audioldm2/utils.py\<close> is glue code around the Python runtime: it looks
  names up in modules, calls constructors, prints, enters a debugger and downloads
  files. The embedding keeps the control flow of each function as it is written and
  makes every interaction with the runtime explicit:
  \<^item> Python values are the datatype \<open>pyval\<close>; a \<open>dict\<close> with string keys is an
    association list in insertion order (looked up with \<open>map_of\<close>);
  \<^item> an exception is a value of \<open>exn\<close>, and a computation returns \<open>exn + 'a\<close>
    (\<open>Inl\<close> the exception raised);
  \<^item> every call into the runtime (import, reload, call of a callable, debugger,
    print, download) appends an \<open>event\<close> to a trace, and the answer of the runtime
    is a field of the record \<open>host\<close>, a function of the trace so far and of the
    arguments. A theorem that holds for every \<open>host\<close> holds whatever the runtime
    answers. The field \<open>host_cache_dir\<close> is the module constant \<open>CACHE_DIR\<close>, read
    from the process environment when the module is loaded.
\<close>

datatype pyval =
    PNone
  | PBool bool
  | PInt int
  | PStr string
  | PList "pyval list"
  | PDict "(string \<times> pyval) list"
  | PFunction string
  | PClass string
  | PInstance string "(string \<times> pyval) list"

text \<open>
  \<open>PFunction n\<close> is a function object (a \<open>def\<close> or a \<open>lambda\<close>), \<open>PClass n\<close> a class
  object, \<open>PInstance c attrs\<close> an instance of class \<open>c\<close> with its attributes. The
  exceptions carry the argument Python gives them; the messages of the interpreter's
  own \<open>TypeError\<close>s are abbreviated.
\<close>

datatype exn =
    KeyError string
  | ValueError string
  | TypeError string
  | AttributeError string string
  | ModuleNotFoundError string
  | HostError string

record pymodule =
  mod_name :: string
  mod_attrs :: "string \<rightharpoonup> pyval"

datatype event =
    ImportModule string
  | Reload string
  | Call pyval "(string \<times> pyval) list"
  | IpdbSetTrace exn
  | Print string "string list"
  | HfHubDownload string string string

type_synonym trace = "event list"

type_synonym 'a io = "trace \<Rightarrow> (exn + 'a) \<times> trace"

record host =
  host_import_module :: "trace \<Rightarrow> string \<Rightarrow> exn + pymodule"
  host_reload :: "trace \<Rightarrow> pymodule \<Rightarrow> exn + unit"
  host_call :: "trace \<Rightarrow> pyval \<Rightarrow> (string \<times> pyval) list \<Rightarrow> exn + pyval"
  host_set_trace :: "trace \<Rightarrow> exn + unit"
  host_hf_hub_download :: "trace \<Rightarrow> string \<Rightarrow> string \<Rightarrow> string \<Rightarrow> exn + string"
  host_cache_dir :: string

subsection \<open>Sequencing, raising and catching\<close>

definition return_io :: "'a \<Rightarrow> 'a io" where
  "return_io x = (\<lambda>tr. (Inr x, tr))"

definition raise_io :: "exn \<Rightarrow> 'a io" where
  "raise_io e = (\<lambda>tr. (Inl e, tr))"

definition lift_io :: "exn + 'a \<Rightarrow> 'a io" where
  "lift_io r = (\<lambda>tr. (r, tr))"

definition bind_io :: "'a io \<Rightarrow> ('a \<Rightarrow> 'b io) \<Rightarrow> 'b io" where
  "bind_io m f = (\<lambda>tr. case m tr of (Inl e, tr') \<Rightarrow> (Inl e, tr') | (Inr x, tr') \<Rightarrow> f x tr')"

text \<open>A bare \<open>except:\<close> clause: the handler runs on every exception of the body.\<close>

definition try_except :: "'a io \<Rightarrow> (exn \<Rightarrow> 'a io) \<Rightarrow> 'a io" where
  "try_except m handler =
     (\<lambda>tr. case m tr of (Inl e, tr') \<Rightarrow> handler e tr' | (Inr x, tr') \<Rightarrow> (Inr x, tr'))"

subsection \<open>The runtime operations the module calls\<close>

definition import_module :: "host \<Rightarrow> string \<Rightarrow> pymodule io" where
  "import_module h name = (\<lambda>tr. (host_import_module h tr name, tr @ [ImportModule name]))"

definition reload :: "host \<Rightarrow> pymodule \<Rightarrow> unit io" where
  "reload h m = (\<lambda>tr. (host_reload h tr m, tr @ [Reload (mod_name m)]))"

definition getattr_module :: "pymodule \<Rightarrow> string \<Rightarrow> exn + pyval" where
  "getattr_module m name =
     (case mod_attrs m name of
        None \<Rightarrow> Inl (AttributeError (mod_name m) name)
      | Some v \<Rightarrow> Inr v)"

fun type_name :: "pyval \<Rightarrow> string" where
  "type_name PNone = ''NoneType''"
| "type_name (PBool _) = ''bool''"
| "type_name (PInt _) = ''int''"
| "type_name (PStr _) = ''str''"
| "type_name (PList _) = ''list''"
| "type_name (PDict _) = ''dict''"
| "type_name (PFunction _) = ''function''"
| "type_name (PClass _) = ''type''"
| "type_name (PInstance c _) = c"

text \<open>
  A call \<open>f(**kw)\<close>: function objects and classes are called by the runtime; the other
  values of the model are not callable.
\<close>

fun callable :: "pyval \<Rightarrow> bool" where
  "callable (PFunction _) = True"
| "callable (PClass _) = True"
| "callable _ = False"

definition py_call :: "host \<Rightarrow> pyval \<Rightarrow> (string \<times> pyval) list \<Rightarrow> pyval io" where
  "py_call h f kw =
     (if callable f then (\<lambda>tr. (host_call h tr f kw, tr @ [Call f kw]))
      else raise_io (TypeError (type_name f @ '' object is not callable'')))"

text \<open>\<open>key in v\<close> for a string \<open>key\<close>: substring test on a \<open>str\<close>, key test on a
  \<open>dict\<close>, element test on a \<open>list\<close>, and a \<open>TypeError\<close> on a value that is no
  container.\<close>

fun py_contains :: "pyval \<Rightarrow> string \<Rightarrow> exn + bool" where
  "py_contains (PStr s) key = Inr (sublist key s)"
| "py_contains (PDict d) key = Inr (key \<in> fst ` set d)"
| "py_contains (PList xs) key = Inr (PStr key \<in> set xs)"
| "py_contains v key = Inl (TypeError (''argument of type '' @ type_name v @ '' is not iterable''))"

text \<open>\<open>v[key]\<close> for a string \<open>key\<close>.\<close>

fun py_getitem :: "pyval \<Rightarrow> string \<Rightarrow> exn + pyval" where
  "py_getitem (PDict d) key = (case map_of d key of None \<Rightarrow> Inl (KeyError key) | Some v \<Rightarrow> Inr v)"
| "py_getitem (PStr s) key = Inl (TypeError ''string indices must be integers'')"
| "py_getitem (PList xs) key = Inl (TypeError ''list indices must be integers or slices, not str'')"
| "py_getitem v key = Inl (TypeError (type_name v @ '' object is not subscriptable''))"

text \<open>\<open>v.get(key, dflt)\<close>: only a \<open>dict\<close> has the method.\<close>

fun py_get :: "pyval \<Rightarrow> string \<Rightarrow> pyval \<Rightarrow> exn + pyval" where
  "py_get (PDict d) key dflt = (case map_of d key of None \<Rightarrow> Inr dflt | Some v \<Rightarrow> Inr v)"
| "py_get v key dflt = Inl (AttributeError (type_name v) ''get'')"

text \<open>\<open>**v\<close> in a call: the value must be a mapping.\<close>

fun py_kwargs :: "pyval \<Rightarrow> exn + (string \<times> pyval) list" where
  "py_kwargs (PDict d) = Inr d"
| "py_kwargs v = Inl (TypeError (''argument after ** must be a mapping, not '' @ type_name v))"

text \<open>\<open>s.rsplit(sep, 1)\<close> for a separator of one character: the string is cut at the
  last separator, and is returned whole when it has none.\<close>

definition rsplit1 :: "char \<Rightarrow> string \<Rightarrow> string list" where
  "rsplit1 sep s =
     (if sep \<in> set s
      then [rev (tl (dropWhile (\<lambda>c. c \<noteq> sep) (rev s))), rev (takeWhile (\<lambda>c. c \<noteq> sep) (rev s))]
      else [s])"

section \<open>The functions of \<open>utils.py\<close>\<close>

definition exists :: "pyval \<Rightarrow> bool" where
  "exists x = (x \<noteq> PNone)"

fun isfunction :: "pyval \<Rightarrow> bool" where
  "isfunction (PFunction _) = True"
| "isfunction _ = False"

definition default_val :: "host \<Rightarrow> pyval \<Rightarrow> pyval \<Rightarrow> pyval io" where
  "default_val h val d =
     (if exists val then return_io val
      else if isfunction d then py_call h d [] else return_io d)"

text \<open>
  \<open>get_obj_from_str(string, reload=False)\<close>. The argument is any value: \<open>rsplit\<close> is a
  method of \<open>str\<close>. The unpacking \<open>module, cls = ...\<close> raises \<open>ValueError\<close> when the
  list has not two elements.
\<close>

definition get_obj_from_str :: "host \<Rightarrow> pyval \<Rightarrow> bool \<Rightarrow> pyval io" where
  "get_obj_from_str h string rld =
     (case string of
        PStr s \<Rightarrow>
          (case rsplit1 CHR ''.'' s of
             [module, cls] \<Rightarrow>
               bind_io (if rld
                        then bind_io (import_module h module) (\<lambda>module_imp. reload h module_imp)
                        else return_io ())
                 (\<lambda>_. bind_io (import_module h module) (\<lambda>m. lift_io (getattr_module m cls)))
           | [] \<Rightarrow> raise_io (ValueError ''not enough values to unpack (expected 2, got 0)'')
           | [_] \<Rightarrow> raise_io (ValueError ''not enough values to unpack (expected 2, got 1)'')
           | _ \<Rightarrow> raise_io (ValueError ''too many values to unpack (expected 2)''))
      | v \<Rightarrow> raise_io (AttributeError (type_name v) ''rsplit''))"

text \<open>\<open>config == "..."\<close> against a string literal.\<close>

definition py_eq_str :: "pyval \<Rightarrow> string \<Rightarrow> bool" where
  "py_eq_str v s = (v = PStr s)"

text \<open>
  \<open>instantiate_from_config(config)\<close>. The membership test and the \<open>raise KeyError\<close>
  stand before the \<open>try\<close>; the body of the \<open>try\<close> evaluates the callee, then the
  keyword arguments, then calls; the bare \<open>except\<close> imports \<open>ipdb\<close> and calls
  \<open>ipdb.set_trace()\<close> (one runtime operation, which may itself raise), after which
  the function ends without a \<open>return\<close>, that is, returns \<open>None\<close>.
\<close>

definition ipdb_set_trace :: "host \<Rightarrow> exn \<Rightarrow> unit io" where
  "ipdb_set_trace h e = (\<lambda>tr. (host_set_trace h (tr @ [IpdbSetTrace e]), tr @ [IpdbSetTrace e]))"

definition instantiate_body :: "host \<Rightarrow> pyval \<Rightarrow> pyval io" where
  "instantiate_body h config =
     bind_io (lift_io (py_getitem config ''target'')) (\<lambda>target.
     bind_io (get_obj_from_str h target False) (\<lambda>f.
     bind_io (lift_io (py_get config ''params'' (PDict []))) (\<lambda>params.
     bind_io (lift_io (py_kwargs params)) (\<lambda>kw.
     py_call h f kw))))"

definition instantiate_from_config :: "host \<Rightarrow> pyval \<Rightarrow> pyval io" where
  "instantiate_from_config h config =
     bind_io (lift_io (py_contains config ''target'')) (\<lambda>has_target.
       if \<not> has_target then
         (if py_eq_str config ''__is_first_stage__'' then return_io PNone
          else if py_eq_str config ''__is_unconditional__'' then return_io PNone
          else raise_io (KeyError ''Expected key `target` to instantiate.''))
       else
         try_except (instantiate_body h config)
           (\<lambda>e. bind_io (ipdb_set_trace h e) (\<lambda>_. return_io PNone)))"

text \<open>
  The path functions of \<open>os.path\<close> on a POSIX system: \<open>join\<close> of two components,
  \<open>basename\<close> (what follows the last \<open>/\<close>) and \<open>dirname\<close> (what precedes it, without
  trailing slashes unless it is slashes only).
\<close>

definition posix_join :: "string \<Rightarrow> string \<Rightarrow> string" where
  "posix_join a b =
     (if (case b of [] \<Rightarrow> False | c # _ \<Rightarrow> c = CHR ''/'') then b
      else if a = [] \<or> last a = CHR ''/'' then a @ b
      else a @ ''/'' @ b)"

definition posix_basename :: "string \<Rightarrow> string" where
  "posix_basename p = rev (takeWhile (\<lambda>c. c \<noteq> CHR ''/'') (rev p))"

definition rstrip :: "char \<Rightarrow> string \<Rightarrow> string" where
  "rstrip c s = rev (dropWhile (\<lambda>x. x = c) (rev s))"

definition posix_dirname :: "string \<Rightarrow> string" where
  "posix_dirname p =
     (let head = rev (dropWhile (\<lambda>c. c \<noteq> CHR ''/'') (rev p))
      in if head \<noteq> [] \<and> head \<noteq> replicate (length head) CHR ''/''
         then rstrip CHR ''/'' head else head)"

text \<open>\<open>d[key]\<close> on a \<open>dict\<close> with string keys: \<open>KeyError(key)\<close> when the key is absent.\<close>

definition dict_getitem :: "(string \<times> 'a) list \<Rightarrow> string \<Rightarrow> exn + 'a" where
  "dict_getitem d key = (case map_of d key of None \<Rightarrow> Inl (KeyError key) | Some v \<Rightarrow> Inr v)"

definition get_metadata :: "host \<Rightarrow> (string \<times> (string \<times> string) list) list" where
  "get_metadata h =
     [(''audioldm2-full'',
       [(''path'', posix_join (host_cache_dir h) ''audioldm2-full.pth''),
        (''url'', ''https://huggingface.co/haoheliu/audioldm2-full/resolve/main/audioldm2-full.pth'')])]"

definition print_io :: "string \<Rightarrow> string list \<Rightarrow> unit io" where
  "print_io msg keys = (\<lambda>tr. (Inr (), tr @ [Print msg keys]))"

definition hf_hub_download :: "host \<Rightarrow> string \<Rightarrow> string \<Rightarrow> string \<Rightarrow> string io" where
  "hf_hub_download h repo_id filename local_dir =
     (\<lambda>tr. (host_hf_hub_download h tr repo_id filename local_dir,
            tr @ [HfHubDownload repo_id filename local_dir]))"

definition unsupported_message :: string where
  "unsupported_message =
     ''The model name you provided is not supported. Please use one of the following: ''"

text \<open>
  \<open>download_checkpoint(checkpoint_name)\<close> for a string. The \<open>if\<close> only prints; the
  keyword arguments of \<open>hf_hub_download\<close> are evaluated in order, each one indexing
  \<open>meta\<close> again, before the download is called. Its result is dropped and the
  function returns \<open>None\<close>.
\<close>

definition download_checkpoint :: "host \<Rightarrow> string \<Rightarrow> pyval io" where
  "download_checkpoint h checkpoint_name =
     (let meta = get_metadata h in
      bind_io (if checkpoint_name \<notin> set (map fst meta)
               then print_io unsupported_message (map fst meta)
               else return_io ())
        (\<lambda>_. let model_id = ''haoheliu/'' @ checkpoint_name in
          bind_io (lift_io (dict_getitem meta checkpoint_name)) (\<lambda>entry1.
          bind_io (lift_io (dict_getitem entry1 ''path'')) (\<lambda>path1.
          bind_io (lift_io (dict_getitem meta checkpoint_name)) (\<lambda>entry2.
          bind_io (lift_io (dict_getitem entry2 ''path'')) (\<lambda>path2.
          bind_io (hf_hub_download h model_id (posix_basename path1) (posix_dirname path2)) (\<lambda>_.
          return_io PNone)))))))"

section \<open>An example runtime\<close>

text \<open>
  A concrete host on which the theorems below are instantiated: the module \<open>a.b\<close>
  defines a class \<open>C\<close>, whose constructor stores its keyword arguments as attributes,
  and a class \<open>Boom\<close>, whose constructor raises; \<open>dict\<close> is the builtin class; the
  function \<open>lambda: 10\<close> returns 10; a debugger session is left with \<open>continue\<close>.
\<close>

definition example_module :: pymodule where
  "example_module =
     \<lparr>mod_name = ''a.b'',
      mod_attrs = [''C'' \<mapsto> PClass ''a.b.C'', ''Boom'' \<mapsto> PClass ''a.b.Boom'']\<rparr>"

definition example_host :: host where
  "example_host =
     \<lparr>host_import_module =
        (\<lambda>tr name. if name = ''a.b'' then Inr example_module else Inl (ModuleNotFoundError name)),
      host_reload = (\<lambda>tr m. Inr ()),
      host_call =
        (\<lambda>tr f kw.
           if f = PClass ''a.b.C'' then Inr (PInstance ''C'' kw)
           else if f = PClass ''a.b.Boom'' then Inl (ValueError ''boom'')
           else if f = PClass ''dict'' then Inr (PDict kw)
           else if f = PFunction ''lambda: 10'' then Inr (PInt 10)
           else Inl (TypeError ''unexpected arguments'')),
      host_set_trace = (\<lambda>tr. Inr ()),
      host_hf_hub_download = (\<lambda>tr repo_id filename local_dir. Inr (posix_join local_dir filename)),
      host_cache_dir = ''/home/user/.cache/audioldm2''\<rparr>"

section \<open>Sentinel values\<close>

lemma sentinels_no_target:
  "\<not> sublist ''target'' ''__is_first_stage__''"
  "\<not> sublist ''target'' ''__is_unconditional__''"
  by (simp_all add: sublist_code prefix_code)

text \<open>
  C5. For each of the two reserved strings \<open>"__is_first_stage__"\<close> and
  \<open>"__is_unconditional__"\<close>, \<open>instantiate_from_config\<close> returns \<open>None\<close> and the trace
  of runtime interactions is unchanged: nothing is imported, looked up or called,
  whatever the host and whatever happened before.
\<close>

theorem instantiate_sentinel_returns_None:
  "instantiate_from_config h (PStr ''__is_first_stage__'') tr = (Inr PNone, tr) \<and>
   instantiate_from_config h (PStr ''__is_unconditional__'') tr = (Inr PNone, tr)"
  by (simp add: instantiate_from_config_def bind_io_def lift_io_def return_io_def
      py_eq_str_def sentinels_no_target)

section \<open>Resolving an identifier\<close>

lemma rsplit1_last_sep:
  assumes "sep \<notin> set symb"
  shows "rsplit1 sep (ns @ sep # symb) = [ns, symb]"
proof -
  let ?P = "\<lambda>c. c \<noteq> sep"
  have tk: "takeWhile ?P (rev symb @ sep # rev ns) = rev symb @ takeWhile ?P (sep # rev ns)"
    by (rule takeWhile_append2) (use assms in auto)
  have dr: "dropWhile ?P (rev symb @ sep # rev ns) = dropWhile ?P (sep # rev ns)"
    by (rule dropWhile_append2) (use assms in auto)
  show ?thesis
    by (simp add: rsplit1_def tk dr)
qed

lemma rsplit1_no_sep: "sep \<notin> set s \<Longrightarrow> rsplit1 sep s = [s]"
  by (simp add: rsplit1_def)

text \<open>Every string with a separator has the form the lemma \<open>rsplit1_last_sep\<close> cuts.\<close>

lemma last_sep_decomposition:
  assumes "sep \<in> set s"
  shows "\<exists>ns symb. s = ns @ sep # symb \<and> sep \<notin> set symb"
  using assms by (metis split_list_last)

text \<open>
  C7. For every identifier string with no \<open>.\<close> in it, \<open>get_obj_from_str\<close> raises the
  \<open>ValueError\<close> of the failed unpacking \<open>module, cls = string.rsplit(".", 1)\<close> (the
  error the specification calls MalformedIdentifier), whatever the reload flag, and
  before anything is imported: the trace is unchanged.
\<close>

theorem get_obj_from_str_no_separator:
  assumes "CHR ''.'' \<notin> set s"
  shows "get_obj_from_str h (PStr s) rld tr =
           (Inl (ValueError ''not enough values to unpack (expected 2, got 1)''), tr)"
  using assms by (simp add: get_obj_from_str_def rsplit1_no_sep raise_io_def)

theorem get_obj_from_str_no_separator_witness:
  "CHR ''.'' \<notin> set ''LatentDiffusion'' \<and>
   get_obj_from_str example_host (PStr ''LatentDiffusion'') False [] =
     (Inl (ValueError ''not enough values to unpack (expected 2, got 1)''), [])"
  using get_obj_from_str_no_separator [of "''LatentDiffusion''" example_host False "[]"]
  by simp

text \<open>
  C2. An identifier \<open>ns.symb\<close> whose part \<open>symb\<close> after the last \<open>.\<close> has no separator:
  \<open>get_obj_from_str\<close> imports the module named \<open>ns\<close> and returns the attribute \<open>symb\<close>
  of the module the import gave, when that module defines \<open>symb\<close>. Without the reload
  flag the module is imported once; with it, the module is imported, reloaded and
  imported again, and the attribute is read from the module of the last import.
\<close>

theorem get_obj_from_str_resolves:
  assumes "CHR ''.'' \<notin> set symb"
  shows "(host_import_module h tr ns = Inr m \<and> mod_attrs m symb = Some v \<longrightarrow>
            get_obj_from_str h (PStr (ns @ ''.'' @ symb)) False tr =
              (Inr v, tr @ [ImportModule ns])) \<and>
         (host_import_module h tr ns = Inr m0 \<and>
          host_reload h (tr @ [ImportModule ns]) m0 = Inr () \<and>
          host_import_module h (tr @ [ImportModule ns, Reload (mod_name m0)]) ns = Inr m \<and>
          mod_attrs m symb = Some v \<longrightarrow>
            get_obj_from_str h (PStr (ns @ ''.'' @ symb)) True tr =
              (Inr v, tr @ [ImportModule ns, Reload (mod_name m0), ImportModule ns]))"
proof -
  have cut: "rsplit1 CHR ''.'' (ns @ CHR ''.'' # symb) = [ns, symb]"
    by (rule rsplit1_last_sep [OF assms])
  show ?thesis
    by (simp add: get_obj_from_str_def cut bind_io_def return_io_def lift_io_def
        import_module_def reload_def getattr_module_def)
qed

theorem get_obj_from_str_resolves_witness:
  "get_obj_from_str example_host (PStr ''a.b.C'') False [] =
     (Inr (PClass ''a.b.C''), [ImportModule ''a.b'']) \<and>
   get_obj_from_str example_host (PStr ''a.b.C'') True [] =
     (Inr (PClass ''a.b.C''), [ImportModule ''a.b'', Reload ''a.b'', ImportModule ''a.b''])"
  using get_obj_from_str_resolves
          [of "''C''" example_host "[]" "''a.b''" example_module "PClass ''a.b.C''" example_module]
  by (simp add: example_host_def example_module_def)

section \<open>Instantiating a config node\<close>

lemma bind_lift_Inr: "bind_io (lift_io (Inr x)) f = f x"
  by (simp add: bind_io_def lift_io_def)

lemma bind_lift_Inl: "bind_io (lift_io (Inl e)) f = raise_io e"
  by (simp add: bind_io_def lift_io_def raise_io_def)

lemma try_except_raise: "try_except (raise_io e) handler = handler e"
  by (simp add: try_except_def raise_io_def)

lemma instantiate_dict_try:
  assumes "map_of d ''target'' = Some target"
  shows "instantiate_from_config h (PDict d) tr =
           try_except (instantiate_body h (PDict d))
             (\<lambda>e. bind_io (ipdb_set_trace h e) (\<lambda>_. return_io PNone)) tr"
proof -
  have "(''target'', target) \<in> set d"
    using assms by (rule map_of_SomeD)
  then have "''target'' \<in> fst ` set d"
    by force
  then show ?thesis
    by (simp add: instantiate_from_config_def bind_io_def lift_io_def)
qed

lemma instantiate_body_call:
  assumes "map_of d ''target'' = Some target"
    and "get_obj_from_str h target False tr = (Inr f, tr1)"
    and "callable f"
    and "map_of d ''params'' = None \<and> kw = [] \<or> map_of d ''params'' = Some (PDict kw)"
  shows "instantiate_body h (PDict d) tr = (host_call h tr1 f kw, tr1 @ [Call f kw])"
  using assms
  by (auto simp add: instantiate_body_def bind_io_def lift_io_def py_call_def)

lemma handler_result:
  "bind_io (ipdb_set_trace h e) (\<lambda>_. return_io PNone) tr =
     ((case host_set_trace h (tr @ [IpdbSetTrace e]) of Inl e' \<Rightarrow> Inl e' | Inr _ \<Rightarrow> Inr PNone),
      tr @ [IpdbSetTrace e])"
  by (simp add: bind_io_def ipdb_set_trace_def return_io_def split: sum.splits)

lemma example_resolves:
  "get_obj_from_str example_host (PStr ''a.b.C'') False [] =
     (Inr (PClass ''a.b.C''), [ImportModule ''a.b''])"
  "get_obj_from_str example_host (PStr ''a.b.Boom'') False [] =
     (Inr (PClass ''a.b.Boom''), [ImportModule ''a.b''])"
  by (simp_all add: get_obj_from_str_def rsplit1_def bind_io_def return_io_def lift_io_def
      import_module_def getattr_module_def example_host_def example_module_def)

text \<open>
  C6, as the code has it. The test for the key is Python's \<open>"target" in config\<close>.
  An input on which that test is false (a \<open>dict\<close> with no key \<open>target\<close>, a string
  that does not contain \<open>target\<close>, a list without the element \<open>"target"\<close>) and which
  is neither of the two reserved strings raises
  \<open>KeyError("Expected key `target` to instantiate.")\<close>, the error the specification
  calls MissingTargetKey, before the \<open>try\<close> and with no runtime interaction. An input
  on which the test itself raises (\<open>None\<close>, a number) fails with the exception of the
  test, a \<open>TypeError\<close>, also before the \<open>try\<close>.
\<close>

theorem instantiate_missing_target:
  "(py_contains config ''target'' = Inr False \<and>
    config \<noteq> PStr ''__is_first_stage__'' \<and> config \<noteq> PStr ''__is_unconditional__'' \<longrightarrow>
      instantiate_from_config h config tr =
        (Inl (KeyError ''Expected key `target` to instantiate.''), tr)) \<and>
   (py_contains config ''target'' = Inl e \<longrightarrow>
      instantiate_from_config h config tr = (Inl e, tr))"
  by (simp add: instantiate_from_config_def bind_io_def lift_io_def py_eq_str_def raise_io_def)

theorem instantiate_missing_target_witness:
  "instantiate_from_config example_host (PDict [(''params'', PDict [(''x'', PInt 1)])]) [] =
     (Inl (KeyError ''Expected key `target` to instantiate.''), []) \<and>
   instantiate_from_config example_host (PList [PStr ''params'']) [] =
     (Inl (KeyError ''Expected key `target` to instantiate.''), []) \<and>
   instantiate_from_config example_host (PInt 5) [] =
     (Inl (TypeError ''argument of type int is not iterable''), [])"
  using instantiate_missing_target
          [where config = "PDict [(''params'', PDict [(''x'', PInt 1)])]"
             and h = example_host and tr = "[]"]
        instantiate_missing_target
          [where config = "PList [PStr ''params'']" and h = example_host and tr = "[]"]
        instantiate_missing_target
          [where config = "PInt 5" and h = example_host and tr = "[]"
             and e = "TypeError ''argument of type int is not iterable''"]
  by simp

text \<open>
  Two inputs without a key \<open>target\<close> on which no \<open>KeyError\<close> is raised: \<open>None\<close>, where
  the membership test raises \<open>TypeError\<close>, and the list \<open>["target"]\<close>, which has no
  key but passes the test, is indexed inside the \<open>try\<close> and ends in the debugger.
\<close>

theorem instantiate_missing_target_counterexample:
  "instantiate_from_config example_host PNone [] =
     (Inl (TypeError ''argument of type NoneType is not iterable''), []) \<and>
   instantiate_from_config example_host (PList [PStr ''target'']) [] =
     (Inr PNone,
      [IpdbSetTrace (TypeError ''list indices must be integers or slices, not str'')])"
  by (simp add: instantiate_from_config_def instantiate_body_def bind_lift_Inr bind_lift_Inl
      try_except_def handler_result raise_io_def example_host_def)

text \<open>
  C9. On a string the test for the key \<open>target\<close> is substring containment. A string
  that contains \<open>target\<close> passes the test and is indexed with \<open>config["target"]\<close>
  inside the \<open>try\<close>: the \<open>TypeError\<close> of indexing a string with a string is caught by
  the bare \<open>except\<close>, so no \<open>KeyError\<close> is raised and the handler runs. A string that
  does not contain \<open>target\<close> and is not a reserved string raises the \<open>KeyError\<close> of the
  missing key. Neither reserved string contains \<open>target\<close>.
\<close>

theorem instantiate_string_target:
  "(sublist ''target'' s \<longrightarrow>
      instantiate_from_config h (PStr s) tr =
        ((case host_set_trace h (tr @ [IpdbSetTrace (TypeError ''string indices must be integers'')]) of
            Inl e' \<Rightarrow> Inl e' | Inr _ \<Rightarrow> Inr PNone),
         tr @ [IpdbSetTrace (TypeError ''string indices must be integers'')])) \<and>
   (\<not> sublist ''target'' s \<and> s \<noteq> ''__is_first_stage__'' \<and> s \<noteq> ''__is_unconditional__'' \<longrightarrow>
      instantiate_from_config h (PStr s) tr =
        (Inl (KeyError ''Expected key `target` to instantiate.''), tr)) \<and>
   \<not> sublist ''target'' ''__is_first_stage__'' \<and>
   \<not> sublist ''target'' ''__is_unconditional__''"
  by (simp add: instantiate_from_config_def instantiate_body_def bind_lift_Inr bind_lift_Inl
      try_except_def handler_result py_eq_str_def raise_io_def sentinels_no_target)

theorem instantiate_string_target_witness:
  "instantiate_from_config example_host (PStr ''my_target'') [] =
     (Inr PNone, [IpdbSetTrace (TypeError ''string indices must be integers'')]) \<and>
   instantiate_from_config example_host (PStr ''__is_last_stage__'') [] =
     (Inl (KeyError ''Expected key `target` to instantiate.''), [])"
  using instantiate_string_target [of "''my_target''" example_host "[]"]
        instantiate_string_target [of "''__is_last_stage__''" example_host "[]"]
  by (simp add: sublist_code prefix_code example_host_def)

text \<open>
  C3. A \<open>dict\<close> with a key \<open>target\<close>: when the identifier resolves to a callable \<open>f\<close>,
  the function calls \<open>f\<close> exactly once, with the entries of the \<open>dict\<close> under
  \<open>params\<close> as keyword arguments, or with no argument when the key \<open>params\<close> is
  absent, and returns what the call returns.
\<close>

theorem instantiate_calls_target_with_params:
  assumes "map_of d ''target'' = Some target"
    and "get_obj_from_str h target False tr = (Inr f, tr1)"
    and "callable f"
    and "map_of d ''params'' = None \<and> kw = [] \<or> map_of d ''params'' = Some (PDict kw)"
    and "host_call h tr1 f kw = Inr obj"
  shows "instantiate_from_config h (PDict d) tr = (Inr obj, tr1 @ [Call f kw])"
  by (simp add: instantiate_dict_try [OF assms(1)] try_except_def
      instantiate_body_call [OF assms(1-4)] assms(5))

theorem instantiate_calls_target_with_params_witness:
  "instantiate_from_config example_host
     (PDict [(''target'', PStr ''a.b.C''), (''params'', PDict [(''x'', PInt 1)])]) [] =
     (Inr (PInstance ''C'' [(''x'', PInt 1)]),
      [ImportModule ''a.b'', Call (PClass ''a.b.C'') [(''x'', PInt 1)]]) \<and>
   instantiate_from_config example_host (PDict [(''target'', PStr ''a.b.C'')]) [] =
     (Inr (PInstance ''C'' []), [ImportModule ''a.b'', Call (PClass ''a.b.C'') []])"
  using instantiate_calls_target_with_params
          [where d = "[(''target'', PStr ''a.b.C''), (''params'', PDict [(''x'', PInt 1)])]"
             and target = "PStr ''a.b.C''" and h = example_host and tr = "[]"
             and f = "PClass ''a.b.C''" and ?tr1.0 = "[ImportModule ''a.b'']"
             and kw = "[(''x'', PInt 1)]" and obj = "PInstance ''C'' [(''x'', PInt 1)]"]
        instantiate_calls_target_with_params
          [where d = "[(''target'', PStr ''a.b.C'')]"
             and target = "PStr ''a.b.C''" and h = example_host and tr = "[]"
             and f = "PClass ''a.b.C''" and ?tr1.0 = "[ImportModule ''a.b'']"
             and kw = "[]" and obj = "PInstance ''C'' []"]
        example_resolves(1)
  by (simp add: example_host_def)

text \<open>
  C1, as the code has it. A \<open>dict\<close> with a key \<open>target\<close> whose resolved constructor
  raises an exception \<open>e\<close> when called with the parameters: the constructor is called
  once, the bare \<open>except\<close> catches \<open>e\<close>, imports \<open>ipdb\<close> and enters the debugger with
  \<open>ipdb.set_trace()\<close> while \<open>e\<close> is being handled. When entering the debugger raises
  (no \<open>ipdb\<close> installed, the session is quit), that exception leaves the function;
  when the session is continued, the function returns \<open>None\<close>.
\<close>

theorem instantiate_constructor_raises:
  assumes "map_of d ''target'' = Some target"
    and "get_obj_from_str h target False tr = (Inr f, tr1)"
    and "callable f"
    and "map_of d ''params'' = None \<and> kw = [] \<or> map_of d ''params'' = Some (PDict kw)"
    and "host_call h tr1 f kw = Inl e"
  shows "instantiate_from_config h (PDict d) tr =
           ((case host_set_trace h (tr1 @ [Call f kw, IpdbSetTrace e]) of
               Inl e' \<Rightarrow> Inl e' | Inr _ \<Rightarrow> Inr PNone),
            tr1 @ [Call f kw, IpdbSetTrace e])"
  by (simp add: instantiate_dict_try [OF assms(1)] try_except_def
      instantiate_body_call [OF assms(1-4)] assms(5) handler_result)

theorem instantiate_constructor_raises_witness:
  "instantiate_from_config example_host
     (PDict [(''target'', PStr ''a.b.Boom''), (''params'', PDict [(''x'', PInt 1)])]) [] =
     (Inr PNone,
      [ImportModule ''a.b'', Call (PClass ''a.b.Boom'') [(''x'', PInt 1)],
       IpdbSetTrace (ValueError ''boom'')])"
  using instantiate_constructor_raises
          [where d = "[(''target'', PStr ''a.b.Boom''), (''params'', PDict [(''x'', PInt 1)])]"
             and target = "PStr ''a.b.Boom''" and h = example_host and tr = "[]"
             and f = "PClass ''a.b.Boom''" and ?tr1.0 = "[ImportModule ''a.b'']"
             and kw = "[(''x'', PInt 1)]" and e = "ValueError ''boom''"]
        example_resolves(2)
  by (simp add: example_host_def)

theorem instantiate_constructor_raises_counterexample:
  "host_call example_host [ImportModule ''a.b''] (PClass ''a.b.Boom'') [] =
     Inl (ValueError ''boom'') \<and>
   instantiate_from_config example_host (PDict [(''target'', PStr ''a.b.Boom'')]) [] =
     (Inr PNone,
      [ImportModule ''a.b'', Call (PClass ''a.b.Boom'') [], IpdbSetTrace (ValueError ''boom'')])"
proof -
  let ?d = "[(''target'', PStr ''a.b.Boom'')]"
  have raises: "host_call example_host [ImportModule ''a.b''] (PClass ''a.b.Boom'') [] =
                  Inl (ValueError ''boom'')"
    by (simp add: example_host_def)
  have body: "instantiate_body example_host (PDict ?d) [] =
                (Inl (ValueError ''boom''), [ImportModule ''a.b'', Call (PClass ''a.b.Boom'') []])"
    using instantiate_body_call
            [where d = ?d and target = "PStr ''a.b.Boom''" and h = example_host and tr = "[]"
               and f = "PClass ''a.b.Boom''" and ?tr1.0 = "[ImportModule ''a.b'']" and kw = "[]"]
          example_resolves(2) raises
    by simp
  have continue: "host_set_trace example_host tr = Inr ()" for tr
    by (simp add: example_host_def)
  have "instantiate_from_config example_host (PDict ?d) [] =
          (Inr PNone,
           [ImportModule ''a.b'', Call (PClass ''a.b.Boom'') [], IpdbSetTrace (ValueError ''boom'')])"
    using instantiate_dict_try [where d = ?d and target = "PStr ''a.b.Boom''"
                                  and h = example_host and tr = "[]"]
    by (simp add: try_except_def body handler_result continue)
  with raises show ?thesis
    by simp
qed

section \<open>The default helper\<close>

text \<open>
  C4, as the code has it. \<open>default(val, d)\<close> returns \<open>val\<close> when it is not \<open>None\<close>, with
  no call. Otherwise, when \<open>d\<close> is a function object (\<open>inspect.isfunction\<close>), it calls
  \<open>d\<close> with no argument, exactly once, and returns what the call returns; when \<open>d\<close>
  is anything else, a class or another callable included, it returns \<open>d\<close> itself and
  calls nothing.
\<close>

theorem default_val_returns:
  "(val \<noteq> PNone \<longrightarrow> default_val h val d tr = (Inr val, tr)) \<and>
   (val = PNone \<and> isfunction d \<longrightarrow>
      default_val h val d tr = (host_call h tr d [], tr @ [Call d []])) \<and>
   (val = PNone \<and> \<not> isfunction d \<longrightarrow> default_val h val d tr = (Inr d, tr))"
  by (cases d) (simp_all add: default_val_def exists_def return_io_def py_call_def)

theorem default_val_returns_witness:
  "default_val example_host (PInt 5) (PInt 10) [] = (Inr (PInt 5), []) \<and>
   default_val example_host (PInt 5) (PFunction ''lambda: 10'') [] = (Inr (PInt 5), []) \<and>
   default_val example_host PNone (PInt 10) [] = (Inr (PInt 10), []) \<and>
   default_val example_host PNone (PFunction ''lambda: 10'') [] =
     (Inr (PInt 10), [Call (PFunction ''lambda: 10'') []])"
  using default_val_returns [of "PInt 5" example_host "PInt 10" "[]"]
        default_val_returns [of "PInt 5" example_host "PFunction ''lambda: 10''" "[]"]
        default_val_returns [of PNone example_host "PInt 10" "[]"]
        default_val_returns [of PNone example_host "PFunction ''lambda: 10''" "[]"]
  by (simp add: example_host_def)

theorem default_val_callable_counterexample:
  "callable (PClass ''dict'') \<and>
   host_call example_host [] (PClass ''dict'') [] = Inr (PDict []) \<and>
   default_val example_host PNone (PClass ''dict'') [] = (Inr (PClass ''dict''), [])"
  by (simp add: default_val_def exists_def return_io_def example_host_def)

section \<open>Downloading a checkpoint\<close>

lemma basename_join:
  assumes "CHR ''/'' \<notin> set b"
  shows "posix_basename (posix_join a b) = b"
proof -
  let ?P = "\<lambda>c. c \<noteq> CHR ''/''"
  have tk: "\<And>ys. takeWhile ?P (rev b @ ys) = rev b @ takeWhile ?P ys"
    by (rule takeWhile_append2) (use assms in auto)
  have tk0: "takeWhile ?P (rev b) = rev b"
    using assms by (auto simp add: takeWhile_eq_all_conv)
  have nostart: "\<not> (case b of [] \<Rightarrow> False | c # _ \<Rightarrow> c = CHR ''/'')"
    using assms by (cases b) auto
  have slash: "takeWhile ?P (rev a) = []" if "a \<noteq> []" "last a = CHR ''/''"
    using that by (simp add: takeWhile_eq_Nil_iff hd_rev)
  consider "a = []" | "a \<noteq> []" "last a = CHR ''/''" | "a \<noteq> []" "last a \<noteq> CHR ''/''"
    by blast
  then show ?thesis
  proof cases
    case 1
    then show ?thesis
      using nostart by (simp add: posix_basename_def posix_join_def tk0)
  next
    case 2
    then show ?thesis
      using nostart by (simp add: posix_basename_def posix_join_def tk slash)
  next
    case 3
    then show ?thesis
      using nostart by (simp add: posix_basename_def posix_join_def tk)
  qed
qed

text \<open>
  C10. For a name that is not a key of the metadata table, \<open>download_checkpoint\<close>
  prints the message with the supported names and goes on: the next statement
  indexes the table with the name and raises \<open>KeyError(name)\<close>, and no download is
  called. For a name of the table nothing is printed and \<open>hf_hub_download\<close> is called
  once, with the repository, the file name and the cache directory of that entry; an
  exception of the download leaves the function, otherwise it returns \<open>None\<close>.
\<close>

theorem download_checkpoint_lookup:
  "(name \<notin> set (map fst (get_metadata h)) \<longrightarrow>
      download_checkpoint h name tr =
        (Inl (KeyError name), tr @ [Print unsupported_message (map fst (get_metadata h))])) \<and>
   (name \<in> set (map fst (get_metadata h)) \<longrightarrow>
      download_checkpoint h name tr =
        ((case host_hf_hub_download h tr ''haoheliu/audioldm2-full'' ''audioldm2-full.pth''
                 (posix_dirname (posix_join (host_cache_dir h) ''audioldm2-full.pth'')) of
            Inl e \<Rightarrow> Inl e | Inr _ \<Rightarrow> Inr PNone),
         tr @ [HfHubDownload ''haoheliu/audioldm2-full'' ''audioldm2-full.pth''
                 (posix_dirname (posix_join (host_cache_dir h) ''audioldm2-full.pth''))]))"
proof -
  have bn: "posix_basename (posix_join (host_cache_dir h) ''audioldm2-full.pth'') = ''audioldm2-full.pth''"
    by (rule basename_join) simp
  show ?thesis
    by (simp add: download_checkpoint_def get_metadata_def bind_io_def lift_io_def return_io_def
        print_io_def dict_getitem_def hf_hub_download_def bn Let_def split: sum.splits)
qed

theorem download_checkpoint_lookup_witness:
  "download_checkpoint example_host ''audioldm-s-full'' [] =
     (Inl (KeyError ''audioldm-s-full''), [Print unsupported_message [''audioldm2-full'']]) \<and>
   download_checkpoint example_host ''audioldm2-full'' [] =
     (Inr PNone,
      [HfHubDownload ''haoheliu/audioldm2-full'' ''audioldm2-full.pth''
         (posix_dirname (posix_join ''/home/user/.cache/audioldm2'' ''audioldm2-full.pth''))])"
  using download_checkpoint_lookup [of "''audioldm-s-full''" example_host "[]"]
        download_checkpoint_lookup [of "''audioldm2-full''" example_host "[]"]
  by (simp add: get_metadata_def example_host_def)

end
